theory Spec2Isabelle
  imports Complex_Main
begin

unbundle bit_operations_syntax

section \<open>Transactions and colour functions\<close>

text \<open>
  \<^verbatim>\<open>TransactionStripped\<close> (websocket.interface) and \<^verbatim>\<open>TxView\<close> (tx-view) are declared
  outside the sources at hand. The component reads \<^verbatim>\<open>txid\<close> and \<^verbatim>\<open>flags\<close> of a
  stripped transaction and \<^verbatim>\<open>txid\<close> and \<^verbatim>\<open>bigintFlags\<close> of a view, and it emits a view
  where a \<^verbatim>\<open>TransactionStripped\<close> is expected, so a view carries the fields of a stripped
  transaction. \<^verbatim>\<open>bigintFlags\<close> is a JavaScript BigInt: an unbounded integer whose
  \<^verbatim>\<open>&\<close> is the two's-complement conjunction, as \<open>AND\<close> on \<^typ>\<open>int\<close> is.

  Views are compared by object identity in the source. The scene keeps one view per
  transaction id, so a view is represented by its value.
\<close>

record TransactionStripped =
  txid :: string
  flags :: int

record TxView = TransactionStripped +
  bigintFlags :: int

type_synonym FilterMode = string

text \<open>
  \<^verbatim>\<open>Color\<close> (sprite-types) and \<^verbatim>\<open>defaultColorFunction\<close> (utils) are not part of the
  sources at hand either. A colour is represented by the way it is obtained: by
  \<^verbatim>\<open>defaultColorFunction(tx)\<close>, which uses the default colour tables, by
  \<^verbatim>\<open>defaultColorFunction(tx, unmatchedFeeColors, unmatchedAuditFeeColors,
  unmatchedMarginalFeeColors, unmatchedAuditColors)\<close>, which uses the tables dimmed to
  \<^verbatim>\<open>unmatchedOpacity\<close>, or as an explicit RGBA value (what an external colour function may
  return).
\<close>

datatype Palette = DefaultPalette | UnmatchedPalette

datatype Color =
    defaultColorFunction TxView Palette
  | Rgba real real real real

text \<open>
  A colour function is a JavaScript closure \<^verbatim>\<open>(tx: TxView) => Color\<close>. The closure that
  \<^verbatim>\<open>getFilterColorFunction\<close> builds reads \<^verbatim>\<open>this.filterMode\<close> every time it is called,
  so a colour function takes the component's filter mode at the time of the call as its
  first argument.
\<close>

type_synonym ColorFunction = "FilterMode \<Rightarrow> TxView \<Rightarrow> Color"

text \<open>
  \<^verbatim>\<open>
  getFilterColorFunction(flags: bigint): ((tx: TxView) => Color) {
    return (tx: TxView) => {
      if ((this.filterMode === 'and' && (tx.bigintFlags & flags) === flags)
          || (this.filterMode === 'or' && (flags === 0n || (tx.bigintFlags & flags) > 0n))) {
        return defaultColorFunction(tx);
      } else {
        return defaultColorFunction(tx, unmatchedFeeColors, unmatchedAuditFeeColors,
          unmatchedMarginalFeeColors, unmatchedAuditColors);
      }
    };
  }
  \<close>
\<close>

definition getFilterColorFunction :: "int \<Rightarrow> ColorFunction" where
  "getFilterColorFunction fl = (\<lambda>filterMode tx.
     if (filterMode = ''and'' \<and> (bigintFlags tx AND fl) = fl)
        \<or> (filterMode = ''or'' \<and> (fl = 0 \<or> (bigintFlags tx AND fl) > 0))
     then defaultColorFunction tx DefaultPalette
     else defaultColorFunction tx UnmatchedPalette)"

section \<open>The scene and the component's surroundings\<close>

text \<open>
  \<^verbatim>\<open>BlockScene\<close> is not part of the sources at hand. The component reads the fields
  \<^verbatim>\<open>txs\<close> (the index from transaction id to view) and \<^verbatim>\<open>animateUntil\<close>, asks
  \<^verbatim>\<open>getTxAt\<close> for the view at a point, and calls methods whose effect inside the scene it
  does not see. A scene is therefore the record of what the component can read; a method
  call is recorded in the order it is made, and the scene's answer to it is a parameter
  (\<open>react\<close> below), so that nothing is assumed about it.
\<close>

type_synonym Position = "real \<times> real"

record Scene =
  txs :: "string \<rightharpoonup> TxView"
  animateUntil :: real
  getTxAt :: "Position \<Rightarrow> TxView option"

datatype SceneCall =
    Setup "TransactionStripped list"
  | SetColorFunction "ColorFunction option"
  | SetHover TxView bool
  | SetHighlight TxView bool

datatype GlCall =
    Uniform2f string real real
  | Uniform1f string real
  | VertexAttribPointers
  | BufferData "real list"
  | DrawArrays real

text \<open>What the component does to the outside, in the order it does it.\<close>

datatype Effect =
    OnScene SceneCall
  | OnGl GlCall
  | TxClickEvent TxView bool
  | TxHoverEvent "string option"
  | ReadyEvent

text \<open>
  What the component takes from its surroundings: \<^verbatim>\<open>window.devicePixelRatio\<close>,
  \<^verbatim>\<open>performance.now()\<close>, the scene's answer to a method call, \<^verbatim>\<open>toFlags\<close>
  (filters.utils) and \<^verbatim>\<open>TxSprite.vertexSize\<close>.
\<close>

record Env =
  devicePixelRatio :: real
  performance_now :: real
  react :: "SceneCall \<Rightarrow> Scene \<Rightarrow> Scene"
  toFlags :: "string list \<Rightarrow> int"
  vertexSize :: real

text \<open>\<^verbatim>\<open>FastVertexArray\<close>: its \<^verbatim>\<open>dirty\<close> flag and what \<^verbatim>\<open>getVertexData()\<close> returns.\<close>

record FastVertexArray =
  dirty :: bool
  vertexData :: "real list"

text \<open>\<^verbatim>\<open>ActiveFilter\<close> (filters.utils), the optional argument of \<^verbatim>\<open>setFilterFlags\<close>.\<close>

record ActiveFilter =
  mode :: "FilterMode option"
  filters :: "string list option"

text \<open>The fields of a pointer event that the handlers read.\<close>

record PointerEvent =
  targetIsCanvas :: bool
  pointerType :: string
  offsetX :: real
  offsetY :: real
  shiftKey :: bool
  ctrlKey :: bool
  metaKey :: bool
  which :: int
  button :: int

text \<open>
  The fields of \<^verbatim>\<open>BlockOverviewGraphComponent\<close> that the modelled methods use.
  \<^verbatim>\<open>null\<close> and \<^verbatim>\<open>undefined\<close> are both \<open>None\<close>; \<open>canvas\<close> and \<open>gl\<close> say whether the
  canvas and the WebGL context are there.

  The last four fields are the browser's side of the scheduler: the animation-frame requests
  that are pending (each will call \<^verbatim>\<open>() => this.run()\<close>), the timers that are pending with
  their delay (each will call \<^verbatim>\<open>() => this.start()\<close>), the last handle the browser has
  given out (handles are positive), and the effects so far.
\<close>

record Component =
  canvas :: bool
  gl :: bool
  filterFlags :: "int option"
  filterMode :: FilterMode
  overrideColors :: "ColorFunction option"
  animationFrameRequest :: "nat option"
  animationHeartBeat :: "nat option"
  displayWidth :: real
  displayHeight :: real
  vertexArray :: FastVertexArray
  running :: bool
  scene :: "Scene option"
  hoverTx :: "TxView option"
  selectedTx :: "TxView option"
  highlightTx :: "TxView option"
  mirrorTx :: "TxView option"
  tooltipPosition :: "Position option"
  readyNextFrame :: bool
  searchText :: "string option"
  filtersAvailable :: bool
  activeFilterFlags :: "int option"
  frames :: "nat list"
  timeouts :: "(nat \<times> real) list"
  lastHandle :: nat
  effects :: "Effect list"

text \<open>
  The component as its field initialisers and constructor leave it: no scene yet
  (\<^verbatim>\<open>resizeCanvas\<close> builds it), \<^verbatim>\<open>filterMode = 'and'\<close>, \<^verbatim>\<open>filtersAvailable = true\<close>,
  no filter mask and no override.
\<close>

definition newComponent :: Component where
  "newComponent =
     \<lparr> canvas = False, gl = False, filterFlags = None, filterMode = ''and'',
       overrideColors = None, animationFrameRequest = None, animationHeartBeat = None,
       displayWidth = 0, displayHeight = 0,
       vertexArray = \<lparr> dirty = False, vertexData = [] \<rparr>,
       running = False, scene = None, hoverTx = None, selectedTx = None,
       highlightTx = None, mirrorTx = None, tooltipPosition = None,
       readyNextFrame = False, searchText = None, filtersAvailable = True,
       activeFilterFlags = None, frames = [], timeouts = [], lastHandle = 0, effects = [] \<rparr>"

subsection \<open>The browser's scheduling functions\<close>

definition requestAnimationFrame :: "Component \<Rightarrow> nat \<times> Component" where
  "requestAnimationFrame c =
     (let h = Suc (lastHandle c) in (h, c\<lparr>lastHandle := h, frames := frames c @ [h]\<rparr>))"

definition cancelAnimationFrame :: "nat \<Rightarrow> Component \<Rightarrow> Component" where
  "cancelAnimationFrame h c = c\<lparr>frames := removeAll h (frames c)\<rparr>"

definition setTimeout :: "real \<Rightarrow> Component \<Rightarrow> nat \<times> Component" where
  "setTimeout delay c =
     (let h = Suc (lastHandle c) in (h, c\<lparr>lastHandle := h, timeouts := timeouts c @ [(h, delay)]\<rparr>))"

definition clearTimeout :: "nat \<Rightarrow> Component \<Rightarrow> Component" where
  "clearTimeout h c = c\<lparr>timeouts := filter (\<lambda>t. fst t \<noteq> h) (timeouts c)\<rparr>"

subsection \<open>Calls and events\<close>

definition emit :: "Effect \<Rightarrow> Component \<Rightarrow> Component" where
  "emit e c = c\<lparr>effects := effects c @ [e]\<rparr>"

text \<open>A method call on \<^verbatim>\<open>this.scene\<close>, where the scene exists.\<close>

definition onScene :: "Env \<Rightarrow> SceneCall \<Rightarrow> Component \<Rightarrow> Component" where
  "onScene env k c = emit (OnScene k) (c\<lparr>scene := map_option (react env k) (scene c)\<rparr>)"

text \<open>The truth value of a \<^verbatim>\<open>bigint | null\<close>: \<^verbatim>\<open>null\<close> and \<^verbatim>\<open>0n\<close> are falsy.\<close>

definition truthy :: "int option \<Rightarrow> bool" where
  "truthy v = (case v of None \<Rightarrow> False | Some n \<Rightarrow> n \<noteq> 0)"

datatype Fault = TypeError

section \<open>The frame scheduler\<close>

text \<open>
  \<^verbatim>\<open>
  doRun(): void {
    if (this.animationFrameRequest) {
      cancelAnimationFrame(this.animationFrameRequest);
    }
    this.animationFrameRequest = requestAnimationFrame(() => this.run());
  }
  \<close>
\<close>

definition doRun :: "Component \<Rightarrow> Component" where
  "doRun c =
     (let c1 = (case animationFrameRequest c of
                  Some h \<Rightarrow> if h \<noteq> 0 then cancelAnimationFrame h c else c
                | None \<Rightarrow> c);
          (h, c2) = requestAnimationFrame c1
      in c2\<lparr>animationFrameRequest := Some h\<rparr>)"

text \<open>
  \<^verbatim>\<open>
  start(): void {
    this.running = true;
    this.ngZone.runOutsideAngular(() => this.doRun());
  }
  \<close>
\<close>

definition start :: "Component \<Rightarrow> Component" where
  "start c = doRun (c\<lparr>running := True\<rparr>)"

text \<open>
  The first half of \<^verbatim>\<open>run\<close>, the body of \<^verbatim>\<open>if (this.scene && this.gl)\<close>: the uniforms,
  the attribute pointers and the upload when the vertex array is dirty, the draw call, and
  the one-shot ready event.
\<close>

definition draw :: "Env \<Rightarrow> real \<Rightarrow> Component \<Rightarrow> Component" where
  "draw env now c =
     (let c1 = emit (OnGl (Uniform2f ''screenSize'' (displayWidth c) (displayHeight c))) c;
          c2 = emit (OnGl (Uniform1f ''now'' now)) c1;
          pointArray = vertexData (vertexArray c2);
          n = real (length pointArray) / vertexSize env;
          c3 = (if dirty (vertexArray c2) then
                  (let c4 = emit (OnGl VertexAttribPointers) c2;
                       c5 = (if pointArray \<noteq> []
                             then emit (OnGl (DrawArrays n)) (emit (OnGl (BufferData pointArray)) c4)
                             else c4)
                   in c5\<lparr>vertexArray := (vertexArray c5)\<lparr>dirty := False\<rparr>\<rparr>)
                else if pointArray \<noteq> [] then emit (OnGl (DrawArrays n)) c2
                else c2)
      in if readyNextFrame c3 then emit ReadyEvent (c3\<lparr>readyNextFrame := False\<rparr>) else c3)"

text \<open>
  \<^verbatim>\<open>
  run(now?: DOMHighResTimeStamp): void {
    if (!now) {
      now = performance.now();
    }
    if (this.scene && this.gl) { ... }
    /* LOOP */
    if (this.running && this.scene && now <= (this.scene.animateUntil + 500)) {
      this.doRun();
    } else {
      if (this.animationHeartBeat) {
        clearTimeout(this.animationHeartBeat);
      }
      this.animationHeartBeat = window.setTimeout(() => {
        this.start();
      }, 1000);
    }
  }
  \<close>
  \<open>tick\<close> is the timestamp after the first statement: an absent or zero argument is
  replaced by the clock.
\<close>

definition tick :: "Env \<Rightarrow> real option \<Rightarrow> real" where
  "tick env now =
     (case now of
        Some n \<Rightarrow> if n = 0 then performance_now env else n
      | None \<Rightarrow> performance_now env)"

definition run :: "Env \<Rightarrow> real option \<Rightarrow> Component \<Rightarrow> Component" where
  "run env now0 c =
     (let now = tick env now0;
          c1 = (if scene c \<noteq> None \<and> gl c then draw env now c else c)
      in if running c1
            \<and> (case scene c1 of Some sc \<Rightarrow> now \<le> animateUntil sc + 500 | None \<Rightarrow> False)
         then doRun c1
         else
           (let c2 = (case animationHeartBeat c1 of
                        Some h \<Rightarrow> if h \<noteq> 0 then clearTimeout h c1 else c1
                      | None \<Rightarrow> c1);
                (h, c3) = setTimeout 1000 c2
            in c3\<lparr>animationHeartBeat := Some h\<rparr>))"

text \<open>
  The browser firing a pending callback: the timer \<open>h\<close> runs \<^verbatim>\<open>() => this.start()\<close>,
  the animation frame \<open>h\<close> runs \<^verbatim>\<open>() => this.run()\<close>, without an argument.
\<close>

definition fireTimeout :: "nat \<Rightarrow> Component \<Rightarrow> Component" where
  "fireTimeout h c = start (c\<lparr>timeouts := filter (\<lambda>t. fst t \<noteq> h) (timeouts c)\<rparr>)"

definition fireAnimationFrame :: "Env \<Rightarrow> nat \<Rightarrow> Component \<Rightarrow> Component" where
  "fireAnimationFrame env h c = run env None (c\<lparr>frames := removeAll h (frames c)\<rparr>)"

section \<open>Filter state\<close>

text \<open>
  \<^verbatim>\<open>
  getColorFunction(): ((tx: TxView) => Color) {
    if (this.filterFlags) {
      return this.getFilterColorFunction(this.filterFlags);
    } else if (this.activeFilterFlags) {
      return this.getFilterColorFunction(this.activeFilterFlags);
    } else {
      return this.overrideColors;
    }
  }
  \<close>
\<close>

definition getColorFunction :: "Component \<Rightarrow> ColorFunction option" where
  "getColorFunction c =
     (if truthy (filterFlags c) then map_option getFilterColorFunction (filterFlags c)
      else if truthy (activeFilterFlags c) then map_option getFilterColorFunction (activeFilterFlags c)
      else overrideColors c)"

text \<open>
  \<^verbatim>\<open>
  setFilterFlags(goggle?: ActiveFilter): void {
    this.filterMode = goggle?.mode || this.filterMode;
    this.activeFilterFlags = goggle?.filters ? toFlags(goggle.filters) : this.filterFlags;
    if (this.scene) {
      if (this.activeFilterFlags != null && this.filtersAvailable) {
        this.scene.setColorFunction(this.getFilterColorFunction(this.activeFilterFlags));
      } else {
        this.scene.setColorFunction(this.overrideColors);
      }
    }
    this.start();
  }
  \<close>
  An array is truthy also when it is empty; an empty mode string is falsy.
\<close>

definition setFilterFlags :: "Env \<Rightarrow> ActiveFilter option \<Rightarrow> Component \<Rightarrow> Component" where
  "setFilterFlags env goggle c =
     (let fm = (case goggle of
                  Some g \<Rightarrow> (case mode g of
                               Some m \<Rightarrow> if m \<noteq> [] then m else filterMode c
                             | None \<Rightarrow> filterMode c)
                | None \<Rightarrow> filterMode c);
          af = (case goggle of
                  Some g \<Rightarrow> (case filters g of
                               Some fs \<Rightarrow> Some (toFlags env fs)
                             | None \<Rightarrow> filterFlags c)
                | None \<Rightarrow> filterFlags c);
          c1 = c\<lparr>filterMode := fm, activeFilterFlags := af\<rparr>;
          c2 = (if scene c1 \<noteq> None then
                  (case activeFilterFlags c1 of
                     Some fl \<Rightarrow>
                       if filtersAvailable c1
                       then onScene env (SetColorFunction (Some (getFilterColorFunction fl))) c1
                       else onScene env (SetColorFunction (overrideColors c1)) c1
                   | None \<Rightarrow> onScene env (SetColorFunction (overrideColors c1)) c1)
                else c1)
      in start c2)"

section \<open>Search highlight and mirror\<close>

text \<open>
  \<^verbatim>\<open>
  updateSearchHighlight(): void {
    if (this.highlightTx && this.highlightTx.txid !== this.searchText && this.scene) {
      this.scene.setHighlight(this.highlightTx, false);
      this.start();
    } else if (this.scene?.txs && this.searchText && this.searchText.length === 64) {
      this.highlightTx = this.scene.txs[this.searchText];
      if (this.highlightTx) {
        this.scene.setHighlight(this.highlightTx, true);
        this.start();
      }
    }
  }
  \<close>
\<close>

definition updateSearchHighlight :: "Env \<Rightarrow> Component \<Rightarrow> Component" where
  "updateSearchHighlight env c =
     (if (case highlightTx c of Some h \<Rightarrow> Some (txid h) \<noteq> searchText c | None \<Rightarrow> False)
         \<and> scene c \<noteq> None
      then (case highlightTx c of
              Some h \<Rightarrow> start (onScene env (SetHighlight h False) c)
            | None \<Rightarrow> c)
      else
        (case scene c of
           Some sc \<Rightarrow>
             (case searchText c of
                Some st \<Rightarrow>
                  if st \<noteq> [] \<and> length st = 64 then
                    (let c1 = c\<lparr>highlightTx := txs sc st\<rparr>
                     in case highlightTx c1 of
                          Some h \<Rightarrow> start (onScene env (SetHighlight h True) c1)
                        | None \<Rightarrow> c1)
                  else c
              | None \<Rightarrow> c)
         | None \<Rightarrow> c))"

text \<open>
  \<^verbatim>\<open>
  setMirror(txid: string | void) {
    if (this.mirrorTx) {
      this.scene.setHover(this.mirrorTx, false);
      this.start();
    }
    if (txid && this.scene.txs[txid]) {
      this.mirrorTx = this.scene.txs[txid];
      this.scene.setHover(this.mirrorTx, true);
      this.start();
    }
  }
  \<close>
  \<^verbatim>\<open>this.scene.setHover\<close> and \<^verbatim>\<open>this.scene.txs\<close> on a scene that is \<^verbatim>\<open>undefined\<close> throw
  a \<^verbatim>\<open>TypeError\<close>: the method has no check that the scene exists.
\<close>

definition setMirror :: "Env \<Rightarrow> string option \<Rightarrow> Component \<Rightarrow> Fault + Component" where
  "setMirror env tid c =
     (case (case mirrorTx c of
              Some m \<Rightarrow>
                (case scene c of
                   None \<Rightarrow> Inl TypeError
                 | Some _ \<Rightarrow> Inr (start (onScene env (SetHover m False) c)))
            | None \<Rightarrow> Inr c) of
        Inl e \<Rightarrow> Inl e
      | Inr c1 \<Rightarrow>
          (case tid of
             None \<Rightarrow> Inr c1
           | Some t \<Rightarrow>
               if t = [] then Inr c1
               else (case scene c1 of
                       None \<Rightarrow> Inl TypeError
                     | Some sc \<Rightarrow>
                         (case txs sc t of
                            None \<Rightarrow> Inr c1
                          | Some v \<Rightarrow>
                              Inr (start (onScene env (SetHover v True) (c1\<lparr>mirrorTx := Some v\<rparr>)))))))"

section \<open>Setting up the scene\<close>

text \<open>
  \<^verbatim>\<open>
  setup(transactions: TransactionStripped[]): void {
    const filtersAvailable = transactions.reduce((flagSet, tx) => flagSet || tx.flags > 0, false);
    if (filtersAvailable !== this.filtersAvailable) {
      this.setFilterFlags();
    }
    this.filtersAvailable = filtersAvailable;
    if (this.scene) {
      this.scene.setup(transactions);
      this.readyNextFrame = true;
      this.start();
      this.updateSearchHighlight();
    }
  }
  \<close>
\<close>

definition setup_txs :: "Env \<Rightarrow> TransactionStripped list \<Rightarrow> Component \<Rightarrow> Component" where
  "setup_txs env transactions c =
     (let fa = foldl (\<lambda>flagSet tx. flagSet \<or> flags tx > 0) False transactions;
          c1 = (if fa \<noteq> filtersAvailable c then setFilterFlags env None c else c);
          c2 = c1\<lparr>filtersAvailable := fa\<rparr>
      in if scene c2 \<noteq> None then
           updateSearchHighlight env
             (start ((onScene env (Setup transactions) c2)\<lparr>readyNextFrame := True\<rparr>))
         else c2)"

section \<open>Pointer interaction\<close>

text \<open>
  \<^verbatim>\<open>
  onTxHover(hoverId: string) {
    this.txHoverEvent.emit(hoverId);
  }
  \<close>
\<close>

definition onTxHover :: "string option \<Rightarrow> Component \<Rightarrow> Component" where
  "onTxHover hoverId c = emit (TxHoverEvent hoverId) c"

text \<open>
  \<^verbatim>\<open>
  onTxClick(cssX: number, cssY: number, keyModifier: boolean = false) {
    if (this.scene) {
      const x = cssX * window.devicePixelRatio;
      const y = cssY * window.devicePixelRatio;
      const selected = this.scene.getTxAt({ x, y });
      if (selected && selected.txid) {
        this.txClickEvent.emit({ tx: selected, keyModifier });
      }
    }
  }
  \<close>
\<close>

definition onTxClick :: "Env \<Rightarrow> real \<Rightarrow> real \<Rightarrow> bool \<Rightarrow> Component \<Rightarrow> Component" where
  "onTxClick env cssX cssY keyModifier c =
     (case scene c of
        Some sc \<Rightarrow>
          (let x = cssX * devicePixelRatio env;
               y = cssY * devicePixelRatio env;
               selected = getTxAt sc (x, y)
           in case selected of
                Some s \<Rightarrow> if txid s \<noteq> [] then emit (TxClickEvent s keyModifier) c else c
              | None \<Rightarrow> c)
      | None \<Rightarrow> c)"

text \<open>
  \<^verbatim>\<open>
  setPreviewTx(cssX: number, cssY: number, clicked: boolean = false) {
    const x = cssX * window.devicePixelRatio;
    const y = cssY * window.devicePixelRatio;
    if (this.scene && (!this.selectedTx || clicked)) {
      this.tooltipPosition = { x: cssX, y: cssY };
      const selected = this.scene.getTxAt({ x, y });
      const currentPreview = this.selectedTx || this.hoverTx;

      if (selected !== currentPreview) {
        if (currentPreview && this.scene) {
          this.scene.setHover(currentPreview, false);
          this.start();
        }
        if (selected) {
          if (selected && this.scene) {
            this.scene.setHover(selected, true);
            this.start();
          }
          if (clicked) {
            this.selectedTx = selected;
          } else {
            this.hoverTx = selected;
            this.onTxHover(this.hoverTx ? this.hoverTx.txid : null);
          }
        } else {
          if (clicked) {
            this.selectedTx = null;
          }
          this.hoverTx = null;
          this.onTxHover(null);
        }
      } else if (clicked) {
        if (selected === this.selectedTx) {
          this.hoverTx = this.selectedTx;
          this.selectedTx = null;
          this.onTxHover(this.hoverTx ? this.hoverTx.txid : null);
        } else {
          this.selectedTx = selected;
        }
      }
    }
  }
  \<close>
  An empty slot and a hit test that finds nothing are both \<open>None\<close>. Where the source would
  compare a \<^verbatim>\<open>null\<close> with an \<^verbatim>\<open>undefined\<close>, it takes another branch than two equal
  empty values do; the two branches leave the same slots empty and differ only in whether a
  hover event that carries \<^verbatim>\<open>null\<close> is emitted.
\<close>

definition setPreviewTx :: "Env \<Rightarrow> real \<Rightarrow> real \<Rightarrow> bool \<Rightarrow> Component \<Rightarrow> Component" where
  "setPreviewTx env cssX cssY clicked c =
     (let x = cssX * devicePixelRatio env;
          y = cssY * devicePixelRatio env
      in case scene c of
           None \<Rightarrow> c
         | Some sc \<Rightarrow>
             if selectedTx c = None \<or> clicked then
               (let c0 = c\<lparr>tooltipPosition := Some (cssX, cssY)\<rparr>;
                    selected = getTxAt sc (x, y);
                    currentPreview = (case selectedTx c0 of Some s \<Rightarrow> Some s | None \<Rightarrow> hoverTx c0)
                in if selected \<noteq> currentPreview then
                     (let c1 = (case currentPreview of
                                  Some p \<Rightarrow>
                                    if scene c0 \<noteq> None then start (onScene env (SetHover p False) c0)
                                    else c0
                                | None \<Rightarrow> c0)
                      in case selected of
                           Some s \<Rightarrow>
                             (let c2 = (if scene c1 \<noteq> None
                                        then start (onScene env (SetHover s True) c1) else c1)
                              in if clicked then c2\<lparr>selectedTx := Some s\<rparr>
                                 else (let c3 = c2\<lparr>hoverTx := Some s\<rparr>
                                       in onTxHover (map_option txid (hoverTx c3)) c3))
                         | None \<Rightarrow>
                             (let c2 = (if clicked then c1\<lparr>selectedTx := None\<rparr> else c1)
                              in onTxHover None (c2\<lparr>hoverTx := None\<rparr>)))
                   else if clicked then
                     (if selected = selectedTx c0 then
                        (let c1 = c0\<lparr>hoverTx := selectedTx c0, selectedTx := None\<rparr>
                         in onTxHover (map_option txid (hoverTx c1)) c1)
                      else c0\<lparr>selectedTx := selected\<rparr>)
                   else c0)
             else c)"

text \<open>
  \<^verbatim>\<open>
  onClick(event) {
    if (!this.canvas) {
      return;
    }
    if (event.target === this.canvas.nativeElement && event.pointerType === 'touch') {
      this.setPreviewTx(event.offsetX, event.offsetY, true);
    } else if (event.target === this.canvas.nativeElement) {
      const keyMod = event.shiftKey || event.ctrlKey || event.metaKey;
      const middleClick = event.which === 2 || event.button === 1;
      this.onTxClick(event.offsetX, event.offsetY, keyMod || middleClick);
    }
  }
  \<close>
\<close>

definition onClick :: "Env \<Rightarrow> PointerEvent \<Rightarrow> Component \<Rightarrow> Component" where
  "onClick env event c =
     (if \<not> canvas c then c
      else if targetIsCanvas event \<and> pointerType event = ''touch''
      then setPreviewTx env (offsetX event) (offsetY event) True c
      else if targetIsCanvas event then
        (let keyMod = (shiftKey event \<or> ctrlKey event \<or> metaKey event);
             middleClick = (which event = 2 \<or> button event = 1)
         in onTxClick env (offsetX event) (offsetY event) (keyMod \<or> middleClick) c)
      else c)"

text \<open>
  \<^verbatim>\<open>
  onPointerLeave(event) {
    if (event.pointerType !== 'touch') {
      this.setPreviewTx(-1, -1, true);
    }
  }
  \<close>
\<close>

definition onPointerLeave :: "Env \<Rightarrow> PointerEvent \<Rightarrow> Component \<Rightarrow> Component" where
  "onPointerLeave env event c =
     (if pointerType event \<noteq> ''touch'' then setPreviewTx env (- 1) (- 1) True c else c)"

section \<open>Reading the effects, and example values\<close>

text \<open>The effects a step has added: what \<open>c'\<close> has recorded beyond \<open>c\<close>.\<close>

definition emitted :: "Component \<Rightarrow> Component \<Rightarrow> Effect list" where
  "emitted c c' = drop (length (effects c)) (effects c')"

definition isTxClick :: "Effect \<Rightarrow> bool" where
  "isTxClick e = (case e of TxClickEvent tx k \<Rightarrow> True | _ \<Rightarrow> False)"

text \<open>
  The colour function that uses the default tables for every transaction, whatever the
  filter mode: the default (undimmed) colour function.
\<close>

definition defaultColors :: ColorFunction where
  "defaultColors = (\<lambda>filterMode tx. defaultColorFunction tx DefaultPalette)"

text \<open>
  Concrete values on which the theorems below are exercised: two transactions with
  64-character ids, a scene that holds both and finds the first at device pixel (20, 20)
  and the second at (40, 40), a scene that does not change when it is called, a device pixel
  ratio of 2 and a clock at 5000, a component with canvas, context and scene, and a mouse
  and a touch event at CSS pixel (10, 10).
\<close>

definition idA :: string where "idA = replicate 64 (CHR ''a'')"

definition idB :: string where "idB = replicate 64 (CHR ''b'')"

definition txA :: TxView where "txA = \<lparr>txid = idA, flags = 2, bigintFlags = 2\<rparr>"

definition txB :: TxView where "txB = \<lparr>txid = idB, flags = 5, bigintFlags = 5\<rparr>"

definition hit0 :: "Position \<Rightarrow> TxView option" where
  "hit0 p = (if p = (20, 20) then Some txA else if p = (40, 40) then Some txB else None)"

definition scene0 :: Scene where
  "scene0 = \<lparr>txs = [idA \<mapsto> txA, idB \<mapsto> txB], animateUntil = 1000, getTxAt = hit0\<rparr>"

definition keep :: "SceneCall \<Rightarrow> Scene \<Rightarrow> Scene" where
  "keep k sc = sc"

definition env0 :: Env where
  "env0 = \<lparr>devicePixelRatio = 2, performance_now = 5000, react = keep,
            toFlags = (\<lambda>fs. 0), vertexSize = 6\<rparr>"

definition graph0 :: Component where
  "graph0 = newComponent\<lparr>canvas := True, gl := True, scene := Some scene0\<rparr>"

definition mouseEvent :: PointerEvent where
  "mouseEvent = \<lparr>targetIsCanvas = True, pointerType = ''mouse'', offsetX = 10, offsetY = 10,
                 shiftKey = False, ctrlKey = True, metaKey = False, which = 1, button = 0\<rparr>"

definition touchEvent :: PointerEvent where
  "touchEvent = \<lparr>targetIsCanvas = True, pointerType = ''touch'', offsetX = 10, offsetY = 10,
                 shiftKey = False, ctrlKey = False, metaKey = False, which = 1, button = 0\<rparr>"

section \<open>Properties of the filter colour function\<close>

text \<open>
  C2. For every filter mask \<open>F\<close> and every transaction, the colour function that
  \<^verbatim>\<open>getFilterColorFunction(F)\<close> builds returns the default (matched) palette exactly when,
  in mode \<^verbatim>\<open>'and'\<close>, \<open>bigintFlags AND F = F\<close>, and, in mode \<^verbatim>\<open>'or'\<close>, \<open>F = 0\<close> or
  \<open>bigintFlags AND F > 0\<close>; in every other case (also in any other mode) it returns the
  dimmed (unmatched) palette. With \<open>F = 0\<close> every transaction matches in both modes.
\<close>

theorem getFilterColorFunction_matches:
  "(getFilterColorFunction F ''and'' tx = defaultColorFunction tx DefaultPalette
      \<longleftrightarrow> (bigintFlags tx AND F) = F)
   \<and> (getFilterColorFunction F ''or'' tx = defaultColorFunction tx DefaultPalette
      \<longleftrightarrow> (F = 0 \<or> (bigintFlags tx AND F) > 0))
   \<and> (m \<noteq> ''and'' \<and> m \<noteq> ''or'' \<longrightarrow>
        getFilterColorFunction F m tx = defaultColorFunction tx UnmatchedPalette)
   \<and> (getFilterColorFunction F m tx \<noteq> defaultColorFunction tx DefaultPalette \<longrightarrow>
        getFilterColorFunction F m tx = defaultColorFunction tx UnmatchedPalette)
   \<and> getFilterColorFunction 0 ''and'' tx = defaultColorFunction tx DefaultPalette
   \<and> getFilterColorFunction 0 ''or'' tx = defaultColorFunction tx DefaultPalette"
  by (simp add: getFilterColorFunction_def)

theorem getFilterColorFunction_matches_witness:
  "''xor'' \<noteq> ''and'' \<and> ''xor'' \<noteq> ''or''
   \<and> getFilterColorFunction 2 ''xor'' txA = defaultColorFunction txA UnmatchedPalette
   \<and> (bigintFlags txA AND 2) = 2
   \<and> getFilterColorFunction 2 ''and'' txA = defaultColorFunction txA DefaultPalette
   \<and> (bigintFlags txB AND 2) \<noteq> 2
   \<and> getFilterColorFunction 2 ''and'' txB \<noteq> defaultColorFunction txB DefaultPalette
   \<and> getFilterColorFunction 2 ''and'' txB = defaultColorFunction txB UnmatchedPalette
   \<and> (bigintFlags txB AND 4) > 0
   \<and> getFilterColorFunction 4 ''or'' txB = defaultColorFunction txB DefaultPalette"
proof -
  have m: "''xor'' \<noteq> ''and'' \<and> ''xor'' \<noteq> ''or''" by simp
  have a: "(bigintFlags txA AND 2) = 2" by (simp add: txA_def)
  have b: "(bigintFlags txB AND 2) \<noteq> 2" by (simp add: txB_def)
  have c: "(bigintFlags txB AND 4) > 0" by (simp add: txB_def)
  note tA = getFilterColorFunction_matches [of 2 txA "''xor''"]
  note tB = getFilterColorFunction_matches [of 2 txB "''and''"]
  note tC = getFilterColorFunction_matches [of 4 txB "''or''"]
  from tA m have 1: "getFilterColorFunction 2 ''xor'' txA = defaultColorFunction txA UnmatchedPalette"
    by blast
  from tA a have 2: "getFilterColorFunction 2 ''and'' txA = defaultColorFunction txA DefaultPalette"
    by blast
  from tB b have 3: "getFilterColorFunction 2 ''and'' txB \<noteq> defaultColorFunction txB DefaultPalette"
    by blast
  from tB 3 have 4: "getFilterColorFunction 2 ''and'' txB = defaultColorFunction txB UnmatchedPalette"
    by blast
  from tC c have 5: "getFilterColorFunction 4 ''or'' txB = defaultColorFunction txB DefaultPalette"
    by blast
  from m a b c 1 2 3 4 5 show ?thesis by blast
qed

section \<open>Properties of the colour-function resolution\<close>

text \<open>
  C6, as the specification states it, fails where no override is supplied: with no filter
  mask and no override, \<^verbatim>\<open>getColorFunction\<close> returns the override as it is, that is
  \<^verbatim>\<open>null\<close>, and not the default colour function.
\<close>

theorem getColorFunction_no_default:
  "filterFlags newComponent = None \<and> activeFilterFlags newComponent = None
   \<and> overrideColors newComponent = None
   \<and> getColorFunction newComponent = None
   \<and> getColorFunction newComponent \<noteq> Some defaultColors"
  by (simp add: newComponent_def getColorFunction_def truthy_def)

text \<open>
  C6, amended. \<^verbatim>\<open>getColorFunction\<close> returns the filter colour function for the static
  mask \<^verbatim>\<open>filterFlags\<close> when that mask is set and not zero, also when
  \<^verbatim>\<open>activeFilterFlags\<close> is set; otherwise the filter colour function for
  \<^verbatim>\<open>activeFilterFlags\<close> when that one is set and not zero; otherwise the override
  \<^verbatim>\<open>overrideColors\<close> as it is, which is absent when no override was supplied.
\<close>

theorem getColorFunction_order:
  "(filterFlags c = Some F \<and> F \<noteq> 0 \<longrightarrow> getColorFunction c = Some (getFilterColorFunction F))
   \<and> ((filterFlags c = None \<or> filterFlags c = Some 0) \<and> activeFilterFlags c = Some A \<and> A \<noteq> 0
        \<longrightarrow> getColorFunction c = Some (getFilterColorFunction A))
   \<and> ((filterFlags c = None \<or> filterFlags c = Some 0)
        \<and> (activeFilterFlags c = None \<or> activeFilterFlags c = Some 0)
        \<longrightarrow> getColorFunction c = overrideColors c)"
  by (auto simp add: getColorFunction_def truthy_def)

theorem getColorFunction_order_witness:
  "filterFlags (newComponent\<lparr>filterFlags := Some 2, activeFilterFlags := Some 4\<rparr>) = Some 2 \<and> (2::int) \<noteq> 0
   \<and> getColorFunction (newComponent\<lparr>filterFlags := Some 2, activeFilterFlags := Some 4\<rparr>)
       = Some (getFilterColorFunction 2)
   \<and> getColorFunction (newComponent\<lparr>filterFlags := Some 0, activeFilterFlags := Some 4\<rparr>)
       = Some (getFilterColorFunction 4)
   \<and> getColorFunction (newComponent\<lparr>overrideColors := Some defaultColors\<rparr>) = Some defaultColors"
proof -
  let ?c1 = "newComponent\<lparr>filterFlags := Some 2, activeFilterFlags := Some 4\<rparr>"
  let ?c2 = "newComponent\<lparr>filterFlags := Some 0, activeFilterFlags := Some 4\<rparr>"
  let ?c3 = "newComponent\<lparr>overrideColors := Some defaultColors\<rparr>"
  have h1: "filterFlags ?c1 = Some 2 \<and> (2::int) \<noteq> 0" by simp
  have h2: "(filterFlags ?c2 = None \<or> filterFlags ?c2 = Some 0) \<and> activeFilterFlags ?c2 = Some 4 \<and> (4::int) \<noteq> 0"
    by simp
  have h3: "(filterFlags ?c3 = None \<or> filterFlags ?c3 = Some 0)
        \<and> (activeFilterFlags ?c3 = None \<or> activeFilterFlags ?c3 = Some 0)"
    by (simp add: newComponent_def)
  have o3: "overrideColors ?c3 = Some defaultColors" by simp
  from getColorFunction_order [of ?c1 2 4] h1
  have 1: "getColorFunction ?c1 = Some (getFilterColorFunction 2)" by blast
  from getColorFunction_order [of ?c2 0 4] h2
  have 2: "getColorFunction ?c2 = Some (getFilterColorFunction 4)" by blast
  from getColorFunction_order [of ?c3 0 0] h3 o3
  have 3: "getColorFunction ?c3 = Some defaultColors" by simp
  from h1 1 2 3 show ?thesis by blast
qed

section \<open>What the scheduler and the scene calls leave alone\<close>

lemma doRun_fields [simp]:
  "selectedTx (doRun c) = selectedTx c" "hoverTx (doRun c) = hoverTx c"
  "highlightTx (doRun c) = highlightTx c" "mirrorTx (doRun c) = mirrorTx c"
  "scene (doRun c) = scene c" "effects (doRun c) = effects c"
  "running (doRun c) = running c" "timeouts (doRun c) = timeouts c"
  "animationHeartBeat (doRun c) = animationHeartBeat c"
  "filtersAvailable (doRun c) = filtersAvailable c"
  "searchText (doRun c) = searchText c"
  by (simp_all add: doRun_def requestAnimationFrame_def cancelAnimationFrame_def Let_def
        split: option.splits)

lemma start_fields [simp]:
  "selectedTx (start c) = selectedTx c" "hoverTx (start c) = hoverTx c"
  "highlightTx (start c) = highlightTx c" "mirrorTx (start c) = mirrorTx c"
  "scene (start c) = scene c" "effects (start c) = effects c"
  "running (start c) = True" "timeouts (start c) = timeouts c"
  "animationHeartBeat (start c) = animationHeartBeat c"
  "filtersAvailable (start c) = filtersAvailable c"
  "searchText (start c) = searchText c"
  by (simp_all add: start_def)

lemma emit_fields [simp]:
  "selectedTx (emit e c) = selectedTx c" "hoverTx (emit e c) = hoverTx c"
  "highlightTx (emit e c) = highlightTx c" "mirrorTx (emit e c) = mirrorTx c"
  "scene (emit e c) = scene c" "effects (emit e c) = effects c @ [e]"
  "running (emit e c) = running c" "timeouts (emit e c) = timeouts c"
  "frames (emit e c) = frames c" "lastHandle (emit e c) = lastHandle c"
  "animationHeartBeat (emit e c) = animationHeartBeat c"
  "animationFrameRequest (emit e c) = animationFrameRequest c"
  "filtersAvailable (emit e c) = filtersAvailable c"
  "searchText (emit e c) = searchText c"
  by (simp_all add: emit_def)

lemma onScene_fields [simp]:
  "selectedTx (onScene env k c) = selectedTx c" "hoverTx (onScene env k c) = hoverTx c"
  "highlightTx (onScene env k c) = highlightTx c" "mirrorTx (onScene env k c) = mirrorTx c"
  "scene (onScene env k c) = map_option (react env k) (scene c)"
  "effects (onScene env k c) = effects c @ [OnScene k]"
  "filtersAvailable (onScene env k c) = filtersAvailable c"
  "searchText (onScene env k c) = searchText c"
  by (simp_all add: onScene_def)

lemma onTxHover_fields [simp]:
  "selectedTx (onTxHover i c) = selectedTx c" "hoverTx (onTxHover i c) = hoverTx c"
  "scene (onTxHover i c) = scene c" "effects (onTxHover i c) = effects c @ [TxHoverEvent i]"
  by (simp_all add: onTxHover_def)

lemma draw_fields [simp]:
  "running (draw env t c) = running c" "scene (draw env t c) = scene c"
  "frames (draw env t c) = frames c" "timeouts (draw env t c) = timeouts c"
  "lastHandle (draw env t c) = lastHandle c"
  "animationHeartBeat (draw env t c) = animationHeartBeat c"
  "animationFrameRequest (draw env t c) = animationFrameRequest c"
  by (simp_all add: draw_def Let_def)

lemma cancel_request:
  "0 \<notin> set fs \<Longrightarrow>
   (case r of Some h \<Rightarrow> if h \<noteq> 0 then removeAll h fs else fs | None \<Rightarrow> fs)
     = filter (\<lambda>f. Some f \<noteq> r) fs"
  by (induction fs) (auto split: option.splits)

lemma doRun_frames:
  assumes "0 \<notin> set (frames c)"
  shows "frames (doRun c)
           = filter (\<lambda>f. Some f \<noteq> animationFrameRequest c) (frames c) @ [Suc (lastHandle c)]"
proof -
  have "frames (doRun c)
          = (case animationFrameRequest c of
               Some h \<Rightarrow> if h \<noteq> 0 then removeAll h (frames c) else frames c
             | None \<Rightarrow> frames c) @ [Suc (lastHandle c)]"
    by (simp add: doRun_def requestAnimationFrame_def cancelAnimationFrame_def Let_def
          split: option.splits)
  then show ?thesis by (simp only: cancel_request [OF assms])
qed

lemma doRun_request:
  "animationFrameRequest (doRun c) = Some (Suc (lastHandle c))"
  "lastHandle (doRun c) = Suc (lastHandle c)"
  by (simp_all add: doRun_def requestAnimationFrame_def cancelAnimationFrame_def Let_def
        split: option.splits)

lemma clear_heartbeat:
  "0 \<notin> fst ` set ts \<Longrightarrow>
   (case hb of Some h \<Rightarrow> if h \<noteq> 0 then filter (\<lambda>t. fst t \<noteq> h) ts else ts | None \<Rightarrow> ts)
     = filter (\<lambda>t. Some (fst t) \<noteq> hb) ts"
  by (induction ts) (auto split: option.splits)

lemma run_loop:
  assumes "running c" "scene c = Some sc" "tick env now \<le> animateUntil sc + 500"
  shows "run env now c = doRun (if gl c then draw env (tick env now) c else c)"
  using assms by (simp add: run_def Let_def)

lemma run_idle_timeouts:
  assumes "\<not> running c \<or> scene c = None \<or> (scene c = Some sc \<and> animateUntil sc + 500 < tick env now)"
  shows "timeouts (run env now c)
           = (case animationHeartBeat c of
                Some h \<Rightarrow> if h \<noteq> 0 then filter (\<lambda>t. fst t \<noteq> h) (timeouts c) else timeouts c
              | None \<Rightarrow> timeouts c) @ [(Suc (lastHandle c), 1000)]"
    and "frames (run env now c) = frames c"
    and "animationHeartBeat (run env now c) = Some (Suc (lastHandle c))"
    and "lastHandle (run env now c) = Suc (lastHandle c)"
    and "animationFrameRequest (run env now c) = animationFrameRequest c"
  using assms
  by (auto simp add: run_def Let_def setTimeout_def clearTimeout_def split: option.splits)

lemmas fixtures = graph0_def newComponent_def env0_def scene0_def hit0_def keep_def

lemma first_click:
  "setPreviewTx env0 10 10 True graph0
     = (start (onScene env0 (SetHover txA True) (graph0\<lparr>tooltipPosition := Some (10, 10)\<rparr>)))
         \<lparr>selectedTx := Some txA\<rparr>"
  by (simp add: setPreviewTx_def fixtures Let_def)

section \<open>Properties of the pointer interaction\<close>

text \<open>
  C3. Toggle-select law, for a commit (\<^verbatim>\<open>setPreviewTx\<close> with \<^verbatim>\<open>clicked = true\<close>) on a
  component that has a scene: a commit that hits \<open>X\<close> while no transaction is selected makes
  \<open>X\<close> the selected transaction; a commit that hits \<open>X\<close> while \<open>X\<close> is selected empties
  the selection and makes \<open>X\<close> the hovered transaction; a commit that hits another
  transaction \<open>Y\<close> while \<open>X\<close> is selected makes \<open>Y\<close> the selected transaction; a commit
  that hits nothing clears the selection.
\<close>

theorem setPreviewTx_toggle_select:
  assumes "scene c = Some sc"
  shows
  "(selectedTx c = None \<and> getTxAt sc (cssX * devicePixelRatio env, cssY * devicePixelRatio env) = Some X
      \<longrightarrow> selectedTx (setPreviewTx env cssX cssY True c) = Some X)
   \<and> (selectedTx c = Some X \<and> getTxAt sc (cssX * devicePixelRatio env, cssY * devicePixelRatio env) = Some X
      \<longrightarrow> selectedTx (setPreviewTx env cssX cssY True c) = None
          \<and> hoverTx (setPreviewTx env cssX cssY True c) = Some X)
   \<and> (selectedTx c = Some X \<and> getTxAt sc (cssX * devicePixelRatio env, cssY * devicePixelRatio env) = Some Y
        \<and> Y \<noteq> X
      \<longrightarrow> selectedTx (setPreviewTx env cssX cssY True c) = Some Y)
   \<and> (getTxAt sc (cssX * devicePixelRatio env, cssY * devicePixelRatio env) = None
      \<longrightarrow> selectedTx (setPreviewTx env cssX cssY True c) = None)"
  using assms
  by (auto simp add: setPreviewTx_def Let_def split: option.splits)

theorem setPreviewTx_toggle_select_witness:
  "scene graph0 = Some scene0
   \<and> selectedTx graph0 = None
   \<and> getTxAt scene0 (10 * devicePixelRatio env0, 10 * devicePixelRatio env0) = Some txA
   \<and> selectedTx (setPreviewTx env0 10 10 True graph0) = Some txA
   \<and> scene (setPreviewTx env0 10 10 True graph0) = Some scene0
   \<and> selectedTx (setPreviewTx env0 10 10 True (setPreviewTx env0 10 10 True graph0)) = None
   \<and> hoverTx (setPreviewTx env0 10 10 True (setPreviewTx env0 10 10 True graph0)) = Some txA
   \<and> getTxAt scene0 (20 * devicePixelRatio env0, 20 * devicePixelRatio env0) = Some txB
   \<and> txB \<noteq> txA
   \<and> selectedTx (setPreviewTx env0 20 20 True (setPreviewTx env0 10 10 True graph0)) = Some txB
   \<and> getTxAt scene0 (1 * devicePixelRatio env0, 1 * devicePixelRatio env0) = None
   \<and> selectedTx (setPreviewTx env0 1 1 True (setPreviewTx env0 10 10 True graph0)) = None"
proof -
  let ?c1 = "setPreviewTx env0 10 10 True graph0"
  have s0: "scene graph0 = Some scene0" by (simp add: graph0_def)
  have n0: "selectedTx graph0 = None" by (simp add: graph0_def newComponent_def)
  have hA: "getTxAt scene0 (10 * devicePixelRatio env0, 10 * devicePixelRatio env0) = Some txA"
    by (simp add: env0_def scene0_def hit0_def)
  have hB: "getTxAt scene0 (20 * devicePixelRatio env0, 20 * devicePixelRatio env0) = Some txB"
    by (simp add: env0_def scene0_def hit0_def)
  have hN: "getTxAt scene0 (1 * devicePixelRatio env0, 1 * devicePixelRatio env0) = None"
    by (simp add: env0_def scene0_def hit0_def)
  have ne: "txB \<noteq> txA" by (simp add: txA_def txB_def)
  have s1: "scene ?c1 = Some scene0"
    by (simp add: first_click) (simp add: graph0_def env0_def keep_def)
  from setPreviewTx_toggle_select [OF s0, where X=txA and Y=txA and cssX=10 and cssY=10 and env=env0] n0 hA
  have 1: "selectedTx ?c1 = Some txA" by blast
  from setPreviewTx_toggle_select [OF s1, where X=txA and Y=txA and cssX=10 and cssY=10 and env=env0] 1 hA
  have 2: "selectedTx (setPreviewTx env0 10 10 True ?c1) = None
           \<and> hoverTx (setPreviewTx env0 10 10 True ?c1) = Some txA" by blast
  from setPreviewTx_toggle_select [OF s1, where X=txA and Y=txB and cssX=20 and cssY=20 and env=env0] 1 hB ne
  have 3: "selectedTx (setPreviewTx env0 20 20 True ?c1) = Some txB" by blast
  from setPreviewTx_toggle_select [OF s1, where X=txA and Y=txB and cssX=1 and cssY=1 and env=env0] hN
  have 4: "selectedTx (setPreviewTx env0 1 1 True ?c1) = None" by blast
  from s0 n0 hA hB hN ne s1 1 2 3 4 show ?thesis by blast
qed

text \<open>
  C4, as the specification states it, fails: \<^verbatim>\<open>onPointerLeave\<close> calls
  \<^verbatim>\<open>setPreviewTx(-1, -1, true)\<close>, a commit, so a mouse that leaves the canvas while
  a transaction is selected clears the selection.
\<close>

theorem onPointerLeave_clears_selection:
  "selectedTx (graph0\<lparr>selectedTx := Some txA\<rparr>) = Some txA
   \<and> pointerType mouseEvent \<noteq> ''touch''
   \<and> selectedTx (onPointerLeave env0 mouseEvent (graph0\<lparr>selectedTx := Some txA\<rparr>)) = None"
  by (simp add: onPointerLeave_def setPreviewTx_def graph0_def newComponent_def env0_def
        scene0_def hit0_def mouseEvent_def Let_def)

text \<open>
  C4, amended. A pointer-leave that is not a touch event is a commit at the off-canvas
  point (-1, -1): on a component with a scene whose hit test finds nothing there, it clears
  both the selection and the hover; whatever the hit test finds, a transaction that was
  selected is not selected afterwards. A touch pointer-leave, and any pointer-leave before
  the scene exists, changes nothing.
\<close>

theorem onPointerLeave_commit:
  "(pointerType e \<noteq> ''touch'' \<and> scene c = Some sc
      \<and> getTxAt sc (- 1 * devicePixelRatio env, - 1 * devicePixelRatio env) = None
      \<longrightarrow> selectedTx (onPointerLeave env e c) = None \<and> hoverTx (onPointerLeave env e c) = None)
   \<and> (pointerType e \<noteq> ''touch'' \<and> scene c = Some sc \<and> selectedTx c = Some X
      \<longrightarrow> selectedTx (onPointerLeave env e c) \<noteq> Some X)
   \<and> (pointerType e = ''touch'' \<or> scene c = None \<longrightarrow> onPointerLeave env e c = c)"
  by (auto simp add: onPointerLeave_def setPreviewTx_def Let_def split: option.splits)

theorem onPointerLeave_commit_witness:
  "pointerType mouseEvent \<noteq> ''touch''
   \<and> scene (graph0\<lparr>selectedTx := Some txA\<rparr>) = Some scene0
   \<and> getTxAt scene0 (- 1 * devicePixelRatio env0, - 1 * devicePixelRatio env0) = None
   \<and> selectedTx (onPointerLeave env0 mouseEvent (graph0\<lparr>selectedTx := Some txA\<rparr>)) = None
   \<and> hoverTx (onPointerLeave env0 mouseEvent (graph0\<lparr>selectedTx := Some txA\<rparr>)) = None
   \<and> pointerType touchEvent = ''touch''
   \<and> onPointerLeave env0 touchEvent (graph0\<lparr>selectedTx := Some txA\<rparr>) = graph0\<lparr>selectedTx := Some txA\<rparr>"
proof -
  let ?c = "graph0\<lparr>selectedTx := Some txA\<rparr>"
  have m: "pointerType mouseEvent \<noteq> ''touch''" by (simp add: mouseEvent_def)
  have t: "pointerType touchEvent = ''touch''" by (simp add: touchEvent_def)
  have s: "scene ?c = Some scene0" by (simp add: graph0_def)
  have h: "getTxAt scene0 (- 1 * devicePixelRatio env0, - 1 * devicePixelRatio env0) = None"
    by (simp add: env0_def scene0_def hit0_def)
  from onPointerLeave_commit [where e=mouseEvent and c="?c" and sc=scene0 and env=env0] m s h
  have 1: "selectedTx (onPointerLeave env0 mouseEvent ?c) = None
           \<and> hoverTx (onPointerLeave env0 mouseEvent ?c) = None" by blast
  from onPointerLeave_commit [where e=touchEvent and c="?c" and sc=scene0 and env=env0] t
  have 2: "onPointerLeave env0 touchEvent ?c = ?c" by blast
  from m t s h 1 2 show ?thesis by blast
qed

lemma setPreviewTx_effects:
  "\<exists>es. effects (setPreviewTx env x y k c) = effects c @ es \<and> \<not> list_ex isTxClick es"
  by (auto simp add: setPreviewTx_def Let_def isTxClick_def split: option.splits)

lemma setPreviewTx_emitted: "\<not> list_ex isTxClick (emitted c (setPreviewTx env x y k c))"
  using setPreviewTx_effects [of env x y k c] by (auto simp add: emitted_def)

lemma emitted_same [simp]: "emitted c c = []"
  by (simp add: emitted_def)

lemma emitted_emit [simp]: "emitted c (emit e c) = [e]"
  by (simp add: emitted_def)

text \<open>
  What a commit does to the two pointer slots, on a component with a scene: the selection
  becomes the transaction that is hit, unless that one was selected, which is demoted to
  the hover slot; a commit that hits nothing empties the selection.
\<close>

lemma setPreviewTx_commit:
  assumes "scene c = Some sc"
  shows "selectedTx (setPreviewTx env cssX cssY True c)
           = (case getTxAt sc (cssX * devicePixelRatio env, cssY * devicePixelRatio env) of
                None \<Rightarrow> None
              | Some X \<Rightarrow> if selectedTx c = Some X then None else Some X)"
    and "getTxAt sc (cssX * devicePixelRatio env, cssY * devicePixelRatio env) = Some X
         \<Longrightarrow> selectedTx c = Some X
         \<Longrightarrow> hoverTx (setPreviewTx env cssX cssY True c) = Some X"
  using assms
  by (auto simp add: setPreviewTx_def Let_def split: option.splits)

lemma onTxClick_slots:
  "selectedTx (onTxClick env cssX cssY k c) = selectedTx c"
  "hoverTx (onTxClick env cssX cssY k c) = hoverTx c"
  by (simp_all add: onTxClick_def Let_def split: option.splits)

lemma first_tap:
  "onClick env0 touchEvent graph0
     = (start (onScene env0 (SetHover txA True) (graph0\<lparr>tooltipPosition := Some (10, 10)\<rparr>)))
         \<lparr>selectedTx := Some txA\<rparr>"
proof -
  have "onClick env0 touchEvent graph0 = setPreviewTx env0 10 10 True graph0"
    by (simp add: onClick_def touchEvent_def graph0_def)
  then show ?thesis by (simp only: first_click)
qed

text \<open>
  C10. A \<^verbatim>\<open>pointerup\<close> on the canvas with pointer type \<^verbatim>\<open>'touch'\<close> is handled by
  \<^verbatim>\<open>setPreviewTx\<close> as a commit and emits no \<^verbatim>\<open>txClickEvent\<close>; on a component with a
  scene it performs the selection: the transaction under the finger becomes the selected
  one, or, when it was the selected one, goes back to the hover slot and the selection is
  emptied, and a tap on nothing empties the selection. A \<^verbatim>\<open>pointerup\<close> that is not a touch
  event never changes the selection or the hover slot. A \<^verbatim>\<open>txClickEvent\<close> is emitted only
  by a \<^verbatim>\<open>pointerup\<close> on the canvas that is not a touch event and whose hit test returns a
  transaction with a non-empty id, and then it is the only effect and carries that
  transaction and the flag "shift, ctrl or meta key, or middle button"; every such event
  does emit it.
\<close>

theorem onClick_touch_selects:
  "(canvas c \<and> targetIsCanvas e \<and> pointerType e = ''touch'' \<longrightarrow>
      onClick env e c = setPreviewTx env (offsetX e) (offsetY e) True c
      \<and> \<not> list_ex isTxClick (emitted c (onClick env e c)))
   \<and> (canvas c \<and> targetIsCanvas e \<and> pointerType e = ''touch'' \<and> scene c = Some sc \<longrightarrow>
        (getTxAt sc (offsetX e * devicePixelRatio env, offsetY e * devicePixelRatio env) = Some X
           \<and> selectedTx c \<noteq> Some X
         \<longrightarrow> selectedTx (onClick env e c) = Some X)
      \<and> (getTxAt sc (offsetX e * devicePixelRatio env, offsetY e * devicePixelRatio env) = Some X
           \<and> selectedTx c = Some X
         \<longrightarrow> selectedTx (onClick env e c) = None \<and> hoverTx (onClick env e c) = Some X)
      \<and> (getTxAt sc (offsetX e * devicePixelRatio env, offsetY e * devicePixelRatio env) = None
         \<longrightarrow> selectedTx (onClick env e c) = None))
   \<and> (pointerType e \<noteq> ''touch'' \<longrightarrow>
        selectedTx (onClick env e c) = selectedTx c \<and> hoverTx (onClick env e c) = hoverTx c)
   \<and> (list_ex isTxClick (emitted c (onClick env e c)) \<longrightarrow>
        pointerType e \<noteq> ''touch'' \<and> canvas c \<and> targetIsCanvas e
        \<and> (\<exists>sc tx. scene c = Some sc
              \<and> getTxAt sc (offsetX e * devicePixelRatio env, offsetY e * devicePixelRatio env) = Some tx
              \<and> txid tx \<noteq> []
              \<and> emitted c (onClick env e c)
                  = [TxClickEvent tx (shiftKey e \<or> ctrlKey e \<or> metaKey e \<or> which e = 2 \<or> button e = 1)]))
   \<and> (canvas c \<and> targetIsCanvas e \<and> pointerType e \<noteq> ''touch'' \<and> scene c = Some sc
        \<and> getTxAt sc (offsetX e * devicePixelRatio env, offsetY e * devicePixelRatio env) = Some tx
        \<and> txid tx \<noteq> []
      \<longrightarrow> emitted c (onClick env e c)
            = [TxClickEvent tx (shiftKey e \<or> ctrlKey e \<or> metaKey e \<or> which e = 2 \<or> button e = 1)])"
proof (intro conjI impI)
  assume t: "canvas c \<and> targetIsCanvas e \<and> pointerType e = ''touch''"
  then show eq: "onClick env e c = setPreviewTx env (offsetX e) (offsetY e) True c"
    by (simp add: onClick_def)
  show "\<not> list_ex isTxClick (emitted c (onClick env e c))"
    unfolding eq by (rule setPreviewTx_emitted)
next
  assume t: "canvas c \<and> targetIsCanvas e \<and> pointerType e = ''touch'' \<and> scene c = Some sc"
  then have eq: "onClick env e c = setPreviewTx env (offsetX e) (offsetY e) True c"
    by (simp add: onClick_def)
  from t have sc: "scene c = Some sc" by simp
  note commit = setPreviewTx_commit [OF sc, where env = env and cssX = "offsetX e" and cssY = "offsetY e"]
  { assume "getTxAt sc (offsetX e * devicePixelRatio env, offsetY e * devicePixelRatio env) = Some X
           \<and> selectedTx c \<noteq> Some X"
    then show "selectedTx (onClick env e c) = Some X"
      by (simp add: eq commit(1)) }
  { assume h: "getTxAt sc (offsetX e * devicePixelRatio env, offsetY e * devicePixelRatio env) = Some X
           \<and> selectedTx c = Some X"
    then show "selectedTx (onClick env e c) = None"
      by (simp add: eq commit(1))
    from h show "hoverTx (onClick env e c) = Some X"
      by (simp add: eq commit(2)) }
  { assume "getTxAt sc (offsetX e * devicePixelRatio env, offsetY e * devicePixelRatio env) = None"
    then show "selectedTx (onClick env e c) = None"
      by (simp add: eq commit(1)) }
next
  assume nt: "pointerType e \<noteq> ''touch''"
  then show "selectedTx (onClick env e c) = selectedTx c"
    by (simp add: onClick_def onTxClick_slots Let_def)
  from nt show "hoverTx (onClick env e c) = hoverTx c"
    by (simp add: onClick_def onTxClick_slots Let_def)
next
  assume ex: "list_ex isTxClick (emitted c (onClick env e c))"
  show "pointerType e \<noteq> ''touch''"
  proof
    assume touch: "pointerType e = ''touch''"
    have "\<not> list_ex isTxClick (emitted c (onClick env e c))"
      using setPreviewTx_emitted [of c env "offsetX e" "offsetY e" True] touch
      by (simp add: onClick_def)
    with ex show False by simp
  qed
  then have nt: "pointerType e \<noteq> ''touch''" .
  show "canvas c" using ex by (cases "canvas c") (simp_all add: onClick_def)
  then have cv: "canvas c" .
  show "targetIsCanvas e" using ex nt cv by (cases "targetIsCanvas e") (simp_all add: onClick_def)
  then have tc: "targetIsCanvas e" .
  show "\<exists>sc tx. scene c = Some sc
     \<and> getTxAt sc (offsetX e * devicePixelRatio env, offsetY e * devicePixelRatio env) = Some tx
     \<and> txid tx \<noteq> []
     \<and> emitted c (onClick env e c)
         = [TxClickEvent tx (shiftKey e \<or> ctrlKey e \<or> metaKey e \<or> which e = 2 \<or> button e = 1)]"
    using ex nt cv tc
    by (auto simp add: onClick_def onTxClick_def Let_def split: option.splits if_splits)
next
  assume "canvas c \<and> targetIsCanvas e \<and> pointerType e \<noteq> ''touch'' \<and> scene c = Some sc
        \<and> getTxAt sc (offsetX e * devicePixelRatio env, offsetY e * devicePixelRatio env) = Some tx
        \<and> txid tx \<noteq> []"
  then show "emitted c (onClick env e c)
            = [TxClickEvent tx (shiftKey e \<or> ctrlKey e \<or> metaKey e \<or> which e = 2 \<or> button e = 1)]"
    by (simp add: onClick_def onTxClick_def Let_def)
qed

theorem onClick_touch_selects_witness:
  "canvas graph0 \<and> targetIsCanvas touchEvent \<and> pointerType touchEvent = ''touch''
   \<and> onClick env0 touchEvent graph0
        = setPreviewTx env0 (offsetX touchEvent) (offsetY touchEvent) True graph0
   \<and> \<not> list_ex isTxClick (emitted graph0 (onClick env0 touchEvent graph0))
   \<and> scene graph0 = Some scene0
   \<and> getTxAt scene0 (offsetX touchEvent * devicePixelRatio env0, offsetY touchEvent * devicePixelRatio env0)
        = Some txA
   \<and> selectedTx graph0 \<noteq> Some txA
   \<and> selectedTx (onClick env0 touchEvent graph0) = Some txA
   \<and> canvas (onClick env0 touchEvent graph0)
   \<and> scene (onClick env0 touchEvent graph0) = Some scene0
   \<and> selectedTx (onClick env0 touchEvent (onClick env0 touchEvent graph0)) = None
   \<and> hoverTx (onClick env0 touchEvent (onClick env0 touchEvent graph0)) = Some txA
   \<and> targetIsCanvas mouseEvent \<and> pointerType mouseEvent \<noteq> ''touch''
   \<and> selectedTx (onClick env0 mouseEvent (onClick env0 touchEvent graph0)) = Some txA
   \<and> getTxAt scene0 (offsetX mouseEvent * devicePixelRatio env0, offsetY mouseEvent * devicePixelRatio env0)
        = Some txA
   \<and> txid txA \<noteq> []
   \<and> emitted graph0 (onClick env0 mouseEvent graph0) = [TxClickEvent txA True]"
proof -
  let ?c1 = "onClick env0 touchEvent graph0"
  have c: "canvas graph0" by (simp add: graph0_def)
  have t: "targetIsCanvas touchEvent \<and> pointerType touchEvent = ''touch''"
    by (simp add: touchEvent_def)
  have m: "targetIsCanvas mouseEvent \<and> pointerType mouseEvent \<noteq> ''touch''"
    by (simp add: mouseEvent_def)
  have k: "(shiftKey mouseEvent \<or> ctrlKey mouseEvent \<or> metaKey mouseEvent
            \<or> which mouseEvent = 2 \<or> button mouseEvent = 1) = True"
    by (simp add: mouseEvent_def)
  have s: "scene graph0 = Some scene0" by (simp add: graph0_def)
  have n: "selectedTx graph0 \<noteq> Some txA" by (simp add: graph0_def newComponent_def)
  have ht: "getTxAt scene0 (offsetX touchEvent * devicePixelRatio env0,
             offsetY touchEvent * devicePixelRatio env0) = Some txA"
    by (simp add: env0_def scene0_def hit0_def touchEvent_def)
  have h: "getTxAt scene0 (offsetX mouseEvent * devicePixelRatio env0,
             offsetY mouseEvent * devicePixelRatio env0) = Some txA"
    by (simp add: env0_def scene0_def hit0_def mouseEvent_def)
  have i: "txid txA \<noteq> []" by (simp add: txA_def idA_def)
  have c1: "canvas ?c1"
    by (simp only: first_tap)
       (simp add: start_def doRun_def requestAnimationFrame_def cancelAnimationFrame_def
          onScene_def emit_def graph0_def newComponent_def Let_def)
  have s1: "scene ?c1 = Some scene0"
    by (simp only: first_tap) (simp add: graph0_def env0_def keep_def)
  note tap0 = onClick_touch_selects [where c=graph0 and e=touchEvent and env=env0 and sc=scene0
      and X=txA and tx=txA]
  note tap1 = onClick_touch_selects [where c="?c1" and e=touchEvent and env=env0 and sc=scene0
      and X=txA and tx=txA]
  note mouse1 = onClick_touch_selects [where c="?c1" and e=mouseEvent and env=env0 and sc=scene0
      and X=txA and tx=txA]
  note mouse0 = onClick_touch_selects [where c=graph0 and e=mouseEvent and env=env0 and sc=scene0
      and X=txA and tx=txA]
  from tap0 c t
  have 1: "onClick env0 touchEvent graph0
             = setPreviewTx env0 (offsetX touchEvent) (offsetY touchEvent) True graph0
           \<and> \<not> list_ex isTxClick (emitted graph0 (onClick env0 touchEvent graph0))"
    by blast
  from tap0 c t s ht n have 2: "selectedTx ?c1 = Some txA" by blast
  from tap1 c1 t s1 ht 2
  have 3: "selectedTx (onClick env0 touchEvent ?c1) = None
           \<and> hoverTx (onClick env0 touchEvent ?c1) = Some txA"
    by blast
  from mouse1 m have "selectedTx (onClick env0 mouseEvent ?c1) = selectedTx ?c1" by blast
  with 2 have 4: "selectedTx (onClick env0 mouseEvent ?c1) = Some txA" by simp
  from mouse0 c m s h i
  have "emitted graph0 (onClick env0 mouseEvent graph0)
          = [TxClickEvent txA (shiftKey mouseEvent \<or> ctrlKey mouseEvent \<or> metaKey mouseEvent
            \<or> which mouseEvent = 2 \<or> button mouseEvent = 1)]"
    by blast
  then have 5: "emitted graph0 (onClick env0 mouseEvent graph0) = [TxClickEvent txA True]"
    by (simp only: k)
  from c t m s n ht h i c1 s1 1 2 3 4 5 show ?thesis by blast
qed

section \<open>Properties of the frame scheduler\<close>

text \<open>
  C9. Continuation rule of \<^verbatim>\<open>run\<close>, where \<open>tick env now\<close> is the tick's timestamp and the
  browser hands out positive handles. When \<^verbatim>\<open>running\<close> is true, a scene exists and the
  timestamp is at most \<^verbatim>\<open>animateUntil + 500\<close>, the next animation frame is requested
  (after the previous request is cancelled) and no timer is touched. Otherwise no animation
  frame is requested, the previous heartbeat timer is cleared and one timer with delay 1000
  is set, which is the only pending timer when the heartbeat was; when that timer fires it
  calls \<^verbatim>\<open>start\<close>, after which \<^verbatim>\<open>running\<close> is true and an animation frame is requested.
\<close>

theorem run_continuation:
  assumes "0 \<notin> set (frames c)" and "0 \<notin> fst ` set (timeouts c)"
  shows
  "(running c \<and> scene c = Some sc \<and> tick env now \<le> animateUntil sc + 500 \<longrightarrow>
      frames (run env now c)
        = filter (\<lambda>f. Some f \<noteq> animationFrameRequest c) (frames c) @ [Suc (lastHandle c)]
      \<and> animationFrameRequest (run env now c) = Some (Suc (lastHandle c))
      \<and> timeouts (run env now c) = timeouts c)
   \<and> (\<not> running c \<or> scene c = None \<or> (scene c = Some sc \<and> animateUntil sc + 500 < tick env now) \<longrightarrow>
      frames (run env now c) = frames c
      \<and> timeouts (run env now c)
          = filter (\<lambda>t. Some (fst t) \<noteq> animationHeartBeat c) (timeouts c) @ [(Suc (lastHandle c), 1000)]
      \<and> animationHeartBeat (run env now c) = Some (Suc (lastHandle c))
      \<and> (fst ` set (timeouts c) \<subseteq> set_option (animationHeartBeat c) \<longrightarrow>
            timeouts (run env now c) = [(Suc (lastHandle c), 1000)])
      \<and> running (fireTimeout (Suc (lastHandle c)) (run env now c))
      \<and> frames (fireTimeout (Suc (lastHandle c)) (run env now c))
          = filter (\<lambda>f. Some f \<noteq> animationFrameRequest c) (frames c) @ [Suc (Suc (lastHandle c))]
      \<and> animationFrameRequest (fireTimeout (Suc (lastHandle c)) (run env now c))
          = Some (Suc (Suc (lastHandle c))))"
proof (intro conjI impI)
  assume loop: "running c \<and> scene c = Some sc \<and> tick env now \<le> animateUntil sc + 500"
  then have eq: "run env now c = doRun (if gl c then draw env (tick env now) c else c)"
    by (simp add: run_loop)
  show "frames (run env now c)
        = filter (\<lambda>f. Some f \<noteq> animationFrameRequest c) (frames c) @ [Suc (lastHandle c)]"
    using assms(1) by (simp add: eq doRun_frames)
  show "animationFrameRequest (run env now c) = Some (Suc (lastHandle c))"
    by (simp add: eq doRun_request)
  show "timeouts (run env now c) = timeouts c"
    by (simp add: eq)
next
  assume idle: "\<not> running c \<or> scene c = None \<or> (scene c = Some sc \<and> animateUntil sc + 500 < tick env now)"
  note r = run_idle_timeouts [OF idle]
  show fr: "frames (run env now c) = frames c" by (rule r)
  show ts: "timeouts (run env now c)
          = filter (\<lambda>t. Some (fst t) \<noteq> animationHeartBeat c) (timeouts c) @ [(Suc (lastHandle c), 1000)]"
    using clear_heartbeat [OF assms(2), of "animationHeartBeat c"] by (simp add: r)
  show "animationHeartBeat (run env now c) = Some (Suc (lastHandle c))" by (rule r)
  show "running (fireTimeout (Suc (lastHandle c)) (run env now c))"
    by (simp add: fireTimeout_def)
  have "0 \<notin> set (frames ((run env now c)\<lparr>timeouts := filter (\<lambda>t. fst t \<noteq> Suc (lastHandle c)) (timeouts (run env now c)), running := True\<rparr>))"
    using assms(1) by (simp add: fr)
  then show "frames (fireTimeout (Suc (lastHandle c)) (run env now c))
          = filter (\<lambda>f. Some f \<noteq> animationFrameRequest c) (frames c) @ [Suc (Suc (lastHandle c))]"
    by (simp add: fireTimeout_def start_def doRun_frames r)
  show "animationFrameRequest (fireTimeout (Suc (lastHandle c)) (run env now c))
          = Some (Suc (Suc (lastHandle c)))"
    by (simp add: fireTimeout_def start_def doRun_request r)
  { assume only: "fst ` set (timeouts c) \<subseteq> set_option (animationHeartBeat c)"
    have "filter (\<lambda>t. Some (fst t) \<noteq> animationHeartBeat c) (timeouts c) = []"
      using only by (auto simp add: filter_empty_conv)
    then show "timeouts (run env now c) = [(Suc (lastHandle c), 1000)]"
      by (simp add: ts) }
qed

theorem run_continuation_witness:
  "0 \<notin> set (frames ((start graph0)\<lparr>frames := []\<rparr>))
   \<and> 0 \<notin> fst ` set (timeouts ((start graph0)\<lparr>frames := []\<rparr>))
   \<and> running ((start graph0)\<lparr>frames := []\<rparr>)
   \<and> scene ((start graph0)\<lparr>frames := []\<rparr>) = Some scene0
   \<and> tick env0 (Some 1200) \<le> animateUntil scene0 + 500
   \<and> frames (run env0 (Some 1200) ((start graph0)\<lparr>frames := []\<rparr>)) = [2]
   \<and> animationFrameRequest (run env0 (Some 1200) ((start graph0)\<lparr>frames := []\<rparr>)) = Some 2
   \<and> timeouts (run env0 (Some 1200) ((start graph0)\<lparr>frames := []\<rparr>)) = []
   \<and> animateUntil scene0 + 500 < tick env0 None
   \<and> frames (run env0 None ((start graph0)\<lparr>frames := []\<rparr>)) = []
   \<and> timeouts (run env0 None ((start graph0)\<lparr>frames := []\<rparr>)) = [(2, 1000)]
   \<and> animationHeartBeat (run env0 None ((start graph0)\<lparr>frames := []\<rparr>)) = Some 2
   \<and> running (fireTimeout 2 (run env0 None ((start graph0)\<lparr>frames := []\<rparr>)))
   \<and> frames (fireTimeout 2 (run env0 None ((start graph0)\<lparr>frames := []\<rparr>))) = [3]"
proof -
  let ?c = "(start graph0)\<lparr>frames := []\<rparr>"
  have f: "frames ?c = []" by simp
  have t: "timeouts ?c = []" by (simp add: graph0_def newComponent_def)
  have l: "lastHandle ?c = 1"
    by (simp add: start_def doRun_def requestAnimationFrame_def graph0_def newComponent_def Let_def)
  have z1: "0 \<notin> set (frames ?c)" by (simp only: f) simp
  have z2: "0 \<notin> fst ` set (timeouts ?c)" by (simp only: t) simp
  have r: "running ?c" by simp
  have s: "scene ?c = Some scene0" by (simp add: graph0_def)
  have a: "tick env0 (Some 1200) \<le> animateUntil scene0 + 500"
    by (simp add: tick_def scene0_def)
  have b: "animateUntil scene0 + 500 < tick env0 None"
    by (simp add: tick_def scene0_def env0_def)
  have sub: "fst ` set (timeouts ?c) \<subseteq> set_option (animationHeartBeat ?c)"
    by (simp only: t) simp
  from run_continuation [OF z1 z2, where sc = scene0 and env = env0 and now = "Some 1200"] r s a
  have "frames (run env0 (Some 1200) ?c)
          = filter (\<lambda>f. Some f \<noteq> animationFrameRequest ?c) (frames ?c) @ [Suc (lastHandle ?c)]
        \<and> animationFrameRequest (run env0 (Some 1200) ?c) = Some (Suc (lastHandle ?c))
        \<and> timeouts (run env0 (Some 1200) ?c) = timeouts ?c"
    by blast
  then have 1: "frames (run env0 (Some 1200) ?c) = [2]
        \<and> animationFrameRequest (run env0 (Some 1200) ?c) = Some 2
        \<and> timeouts (run env0 (Some 1200) ?c) = []"
    by (simp add: f l t numeral_2_eq_2)
  from run_continuation [OF z1 z2, where sc = scene0 and env = env0 and now = None] s b sub
  have "frames (run env0 None ?c) = frames ?c
        \<and> timeouts (run env0 None ?c) = [(Suc (lastHandle ?c), 1000)]
        \<and> animationHeartBeat (run env0 None ?c) = Some (Suc (lastHandle ?c))
        \<and> running (fireTimeout (Suc (lastHandle ?c)) (run env0 None ?c))
        \<and> frames (fireTimeout (Suc (lastHandle ?c)) (run env0 None ?c))
            = filter (\<lambda>f. Some f \<noteq> animationFrameRequest ?c) (frames ?c) @ [Suc (Suc (lastHandle ?c))]"
    by blast
  then have 2: "frames (run env0 None ?c) = []
        \<and> timeouts (run env0 None ?c) = [(2, 1000)]
        \<and> animationHeartBeat (run env0 None ?c) = Some 2
        \<and> running (fireTimeout 2 (run env0 None ?c))
        \<and> frames (fireTimeout 2 (run env0 None ?c)) = [3]"
    by (simp add: f l numeral_2_eq_2 numeral_3_eq_3)
  from z1 z2 r s a b 1 2 show ?thesis by blast
qed

section \<open>Properties of the scene set-up\<close>

text \<open>
  After \<^verbatim>\<open>setup\<close> the flag \<^verbatim>\<open>filtersAvailable\<close> says whether some transaction of the list
  has \<^verbatim>\<open>flags > 0\<close>.
\<close>

lemma setup_txs_filtersAvailable:
  "filtersAvailable (setup_txs env transactions c) = (\<exists>tx \<in> set transactions. flags tx > 0)"
proof -
  have fold: "foldl (\<lambda>flagSet tx. flagSet \<or> flags tx > 0) b txl = (b \<or> (\<exists>tx \<in> set txl. flags tx > 0))"
    for b and txl :: "TransactionStripped list"
    by (induction txl arbitrary: b) auto
  have upd: "filtersAvailable (updateSearchHighlight env d) = filtersAvailable d" for d
    by (simp add: updateSearchHighlight_def Let_def split: option.splits)
  show ?thesis
    by (simp add: setup_txs_def Let_def fold upd)
qed

text \<open>
  C5. After \<^verbatim>\<open>setup\<close>, whenever \<^verbatim>\<open>filtersAvailable\<close> is false the override colour
  function is on the scene and not the filter colour function. The code does not do this:
  \<^verbatim>\<open>setup\<close> calls \<^verbatim>\<open>setFilterFlags\<close> before it stores the new value of
  \<^verbatim>\<open>filtersAvailable\<close>, so \<^verbatim>\<open>setFilterFlags\<close> tests the old one. On a component with a
  scene, a static filter mask 2, no override and \<^verbatim>\<open>filtersAvailable = true\<close>,
  \<^verbatim>\<open>setup([])\<close> leaves \<^verbatim>\<open>filtersAvailable = false\<close> and has put the filter colour function
  for mask 2 on the scene.
\<close>

theorem setup_txs_stale_filtersAvailable:
  "filtersAvailable (graph0\<lparr>filterFlags := Some 2\<rparr>) = True
   \<and> overrideColors (graph0\<lparr>filterFlags := Some 2\<rparr>) = None
   \<and> filtersAvailable (setup_txs env0 [] (graph0\<lparr>filterFlags := Some 2\<rparr>)) = False
   \<and> emitted (graph0\<lparr>filterFlags := Some 2\<rparr>) (setup_txs env0 [] (graph0\<lparr>filterFlags := Some 2\<rparr>))
       = [OnScene (SetColorFunction (Some (getFilterColorFunction 2))), OnScene (Setup [])]"
  by (simp add: setup_txs_def setFilterFlags_def updateSearchHighlight_def emitted_def
        graph0_def newComponent_def Let_def)

section \<open>Properties of the search highlight and the mirror\<close>

text \<open>
  C7. When the search text is a 64-character id that is in the scene's index, that
  transaction becomes \<^verbatim>\<open>highlightTx\<close> and is highlighted. The code does not do this while
  another transaction is highlighted: with \<open>txA\<close> highlighted and the id of \<open>txB\<close> as
  search text, \<^verbatim>\<open>updateSearchHighlight\<close> only removes the highlight of \<open>txA\<close>, keeps
  \<open>txA\<close> as \<^verbatim>\<open>highlightTx\<close>, and does the same again on the next call.
\<close>

theorem updateSearchHighlight_stuck:
  "length idB = 64 \<and> txs scene0 idB = Some txB
   \<and> highlightTx (updateSearchHighlight env0 (graph0\<lparr>highlightTx := Some txA, searchText := Some idB\<rparr>))
       = Some txA
   \<and> emitted (graph0\<lparr>highlightTx := Some txA, searchText := Some idB\<rparr>)
        (updateSearchHighlight env0 (graph0\<lparr>highlightTx := Some txA, searchText := Some idB\<rparr>))
       = [OnScene (SetHighlight txA False)]
   \<and> highlightTx (updateSearchHighlight env0
        (updateSearchHighlight env0 (graph0\<lparr>highlightTx := Some txA, searchText := Some idB\<rparr>)))
       = Some txA"
  by (simp add: updateSearchHighlight_def emitted_def graph0_def newComponent_def scene0_def
        txA_def txB_def idA_def idB_def)

text \<open>Once the scene exists, \<^verbatim>\<open>setMirror\<close> returns for every id.\<close>

lemma setMirror_with_scene:
  "scene c \<noteq> None \<Longrightarrow> \<exists>c'. setMirror env t c = Inr c'"
  by (auto simp add: setMirror_def split: option.splits)

text \<open>
  C8. \<^verbatim>\<open>setMirror\<close> completes without a fault for every id, also before the scene is
  constructed. The code does not do this: on a new component, which has no scene, a
  non-empty id makes \<^verbatim>\<open>this.scene.txs\<close> throw a \<^verbatim>\<open>TypeError\<close>.
\<close>

theorem setMirror_without_scene:
  "scene newComponent = None \<and> mirrorTx newComponent = None
   \<and> setMirror env0 (Some idA) newComponent = Inl TypeError"
  by (simp add: setMirror_def newComponent_def idA_def)

end
